theory Spec2Isabelle
  imports Main "HOL-Library.Sublist"
begin

section \<open>Data model\<close>

text \<open>
  The development embeds \<^verbatim>\<open>brownant/pipeline/base.py\<close>: the class
  \<^verbatim>\<open>PipelineProperty\<close>, its constructor, its \<^verbatim>\<open>prepare\<close> hook and
  \<^verbatim>\<open>get_attr\<close>.

  Python values that travel through keyword arguments and object attributes are drawn
  from a small closed universe. Only the distinction between strings and everything
  else matters to the code (\<^verbatim>\<open>getattr\<close> wants a string as attribute name).
\<close>

datatype pyval = PyNone | PyBool bool | PyInt int | PyStr string

text \<open>
  The exceptions the code raises. \<open>TypeError_fmt f x\<close> stands for
  \<^verbatim>\<open>TypeError(f % x)\<close> with the string operand \<open>x\<close> still apart from its format
  (the format \<^verbatim>\<open>%r\<close> prints the operand's \<^verbatim>\<open>repr\<close>, the quoted string).
  \<open>KeyError k\<close> is what a dictionary lookup of the absent key \<open>k\<close> raises,
  \<open>AttributeError n\<close> what \<^verbatim>\<open>getattr\<close> raises for the absent attribute \<open>n\<close> and
  \<^verbatim>\<open>setattr\<close> for the read-only attribute \<open>n\<close>, \<open>TypeError m\<close> a type error of the
  interpreter, where \<open>m\<close> names the operation that failed (the wording of the
  interpreter's message depends on its version and on the type of the operand).
\<close>

datatype exn =
    TypeError_fmt string string
  | TypeError string
  | KeyError string
  | AttributeError string

text \<open>
  An instance of \<^verbatim>\<open>PipelineProperty\<close>. The three attributes the constructor sets to
  \<^verbatim>\<open>None\<close> are options (\<open>None\<close> while the attribute is unset), \<open>attr_names\<close> and
  \<open>options\<close> are the two dictionaries, and \<open>direct_fields\<close> holds the attributes bound by
  \<^verbatim>\<open>setattr(self, name, value)\<close>. The attribute \<^verbatim>\<open>func\<close> that the base class keeps
  (the bound method \<^verbatim>\<open>provide_value\<close>) is the provider argument of the read
  protocol below.

  An instance has one attribute namespace, so \<^verbatim>\<open>setattr\<close> with the name of an
  attribute that exists already rebinds it. A binding in \<open>direct_fields\<close> under
  \<^verbatim>\<open>attr_names\<close> or \<^verbatim>\<open>options\<close> says that the attribute no longer is the
  dictionary but the bound value: the dictionary is unreachable from then on, and the
  record's map is empty. A binding under \<^verbatim>\<open>required_attrs\<close> or \<^verbatim>\<open>prepare\<close> hides
  the attribute of the class.
\<close>

record PipelineProperty =
  dunder_name :: "pyval option"
  dunder_module :: "pyval option"
  dunder_doc :: "pyval option"
  attr_names :: "string \<rightharpoonup> pyval"
  options :: "string \<rightharpoonup> pyval"
  direct_fields :: "string \<rightharpoonup> pyval"

text \<open>
  A target object: the attributes \<^verbatim>\<open>getattr\<close> finds on it, and the cache slots of
  the properties read through it, keyed by the identity of the property.
\<close>

record target =
  obj_attrs :: "string \<rightharpoonup> pyval"
  slots :: "nat \<rightharpoonup> pyval"

text \<open>
  Keyword arguments are the items of a dictionary in iteration order.
  \<^verbatim>\<open>required_attrs\<close> is a class-level set; it is passed as the list of its elements.
\<close>

type_synonym kwargs = "(string \<times> pyval) list"

section \<open>Built-ins used by the code\<close>

text \<open>\<^verbatim>\<open>name.endswith(suffix)\<close>\<close>

definition endswith :: "string \<Rightarrow> string \<Rightarrow> bool" where
  "endswith s suf =
     (length suf \<le> length s \<and> drop (length s - length suf) s = suf)"

text \<open>\<^verbatim>\<open>sep.join(xs)\<close>\<close>

fun join :: "string \<Rightarrow> string list \<Rightarrow> string" where
  "join sep [] = []"
| "join sep [x] = x"
| "join sep (x # y # ys) = x @ sep @ join sep (y # ys)"

text \<open>
  \<^verbatim>\<open>setattr(self, name, value)\<close> on a property instance, for a value of the universe
  above (no class, no dictionary). Python refuses to rebind \<^verbatim>\<open>__class__\<close> and
  \<^verbatim>\<open>__dict__\<close> to such a value, and the names of \<open>readonly_attrs\<close> are read-only on
  the instance: the members that the base class has from the built-in \<^verbatim>\<open>property\<close>,
  and the weak-reference slot. Every other name is bound in the namespace of the
  instance; a binding of \<^verbatim>\<open>attr_names\<close> or \<^verbatim>\<open>options\<close> replaces the dictionary, a
  binding of one of the three names the constructor sets to \<^verbatim>\<open>None\<close> replaces that
  value.
\<close>

definition readonly_attrs :: "string list" where
  "readonly_attrs = [''fget'', ''fset'', ''fdel'', ''__isabstractmethod__'', ''__weakref__'']"

definition setattr :: "PipelineProperty \<Rightarrow> string \<Rightarrow> pyval \<Rightarrow> exn + PipelineProperty" where
  "setattr self name v =
     (if name = ''__class__'' then Inl (TypeError ''__class__ must be set to a class'')
      else if name = ''__dict__'' then Inl (TypeError ''__dict__ must be set to a dictionary'')
      else if name \<in> set readonly_attrs then Inl (AttributeError name)
      else
        (let self1 = self\<lparr>direct_fields := (direct_fields self)(name \<mapsto> v)\<rparr>
         in Inr (if name = ''attr_names'' then self1\<lparr>attr_names := Map.empty\<rparr>
                 else if name = ''options'' then self1\<lparr>options := Map.empty\<rparr>
                 else if name = ''__name__'' then self1\<lparr>dunder_name := Some v\<rparr>
                 else if name = ''__module__'' then self1\<lparr>dunder_module := Some v\<rparr>
                 else if name = ''__doc__'' then self1\<lparr>dunder_doc := Some v\<rparr>
                 else self1)))"

text \<open>
  The names whose binding by \<^verbatim>\<open>setattr\<close> fails or changes what the constructor does
  afterwards: the four attributes the constructor itself uses, and the names
  \<^verbatim>\<open>setattr\<close> refuses.
\<close>

definition reserved_attrs :: "string list" where
  "reserved_attrs =
     [''attr_names'', ''options'', ''required_attrs'', ''prepare'', ''__class__'', ''__dict__'']
     @ readonly_attrs"

text \<open>
  \<^verbatim>\<open>getattr(obj, attr_name)\<close> on a target object: the attribute name has to be a
  string, and the attribute has to exist.
\<close>

definition getattr :: "target \<Rightarrow> pyval \<Rightarrow> exn + pyval" where
  "getattr obj attr_name =
     (case attr_name of
        PyStr n \<Rightarrow>
          (case obj_attrs obj n of
             None \<Rightarrow> Inl (AttributeError n)
           | Some v \<Rightarrow> Inr v)
      | _ \<Rightarrow> Inl (TypeError ''attribute name must be string''))"

section \<open>The constructor\<close>

text \<open>
  The statements of the constructor that read an attribute which \<^verbatim>\<open>setattr\<close> may
  have rebound. \<^verbatim>\<open>self.attr_names[name] = value\<close> and
  \<^verbatim>\<open>self.options[name] = value\<close> store into the dictionary, and raise when the
  attribute is no dictionary any more.
\<close>

definition setitem_attr_names :: "PipelineProperty \<Rightarrow> string \<Rightarrow> pyval \<Rightarrow> exn + PipelineProperty"
where
  "setitem_attr_names self name v =
     (case direct_fields self ''attr_names'' of
        None \<Rightarrow> Inr (self\<lparr>attr_names := (attr_names self)(name \<mapsto> v)\<rparr>)
      | Some d \<Rightarrow> Inl (TypeError ''object does not support item assignment''))"

definition setitem_options :: "PipelineProperty \<Rightarrow> string \<Rightarrow> pyval \<Rightarrow> exn + PipelineProperty"
where
  "setitem_options self name v =
     (case direct_fields self ''options'' of
        None \<Rightarrow> Inr (self\<lparr>options := (options self)(name \<mapsto> v)\<rparr>)
      | Some d \<Rightarrow> Inl (TypeError ''object does not support item assignment''))"

text \<open>
  \<^verbatim>\<open>name in self.required_attrs\<close>: membership in the set of the class, unless the
  instance has a binding of its own; on a string \<^verbatim>\<open>in\<close> is the substring test, the
  other values are not iterable.
\<close>

definition in_required_attrs :: "string list \<Rightarrow> PipelineProperty \<Rightarrow> string \<Rightarrow> exn + bool" where
  "in_required_attrs required_attrs self name =
     (case direct_fields self ''required_attrs'' of
        None \<Rightarrow> Inr (name \<in> set required_attrs)
      | Some (PyStr s) \<Rightarrow> Inr (sublist name s)
      | Some _ \<Rightarrow> Inl (TypeError ''argument is not iterable''))"

text \<open>
  The loop of \<^verbatim>\<open>__init__\<close> over \<^verbatim>\<open>kwargs.items()\<close>. It threads the instance and
  the set \<^verbatim>\<open>assigned_attrs\<close>; the three branches keep the order of the source. The
  loop ends at the first statement that raises, with the instance as it is then.
\<close>

fun init_loop ::
  "string list \<Rightarrow> kwargs \<Rightarrow> PipelineProperty \<Rightarrow> string set \<Rightarrow>
   (exn + unit) \<times> PipelineProperty \<times> string set"
where
  "init_loop required_attrs [] self assigned_attrs = (Inr (), self, assigned_attrs)"
| "init_loop required_attrs ((name, v) # rest) self assigned_attrs =
     (if endswith name ''_attr'' then
        (case setitem_attr_names self name v of
           Inl e \<Rightarrow> (Inl e, self, insert name assigned_attrs)
         | Inr self1 \<Rightarrow> init_loop required_attrs rest self1 (insert name assigned_attrs))
      else
        (case in_required_attrs required_attrs self name of
           Inl e \<Rightarrow> (Inl e, self, insert name assigned_attrs)
         | Inr required \<Rightarrow>
             if required then
               (case setattr self name v of
                  Inl e \<Rightarrow> (Inl e, self, insert name assigned_attrs)
                | Inr self1 \<Rightarrow> init_loop required_attrs rest self1 (insert name assigned_attrs))
             else
               (case setitem_options self name v of
                  Inl e \<Rightarrow> (Inl e, self, insert name assigned_attrs)
                | Inr self1 \<Rightarrow> init_loop required_attrs rest self1 (insert name assigned_attrs))))"

text \<open>The hook \<^verbatim>\<open>prepare\<close> of the base class has an empty body.\<close>

definition prepare :: "PipelineProperty \<Rightarrow> PipelineProperty" where
  "prepare self = self"

text \<open>
  \<^verbatim>\<open>self.required_attrs - assigned_attrs\<close>: the set difference, listed in the order
  of \<open>required_attrs\<close> (Python's order of a set is unspecified; no theorem below depends
  on it). No value of the universe that the instance may have bound under
  \<^verbatim>\<open>required_attrs\<close> has a difference with a set.
\<close>

definition lacked_attrs_of ::
  "string list \<Rightarrow> PipelineProperty \<Rightarrow> string set \<Rightarrow> exn + string list"
where
  "lacked_attrs_of required_attrs self assigned_attrs =
     (case direct_fields self ''required_attrs'' of
        None \<Rightarrow> Inr (filter (\<lambda>n. n \<notin> assigned_attrs) required_attrs)
      | Some d \<Rightarrow> Inl (TypeError ''unsupported operand type(s) for -''))"

text \<open>
  \<^verbatim>\<open>self.prepare()\<close>: the method of the class, unless the instance has a binding of
  its own, and no value of the universe can be called.
\<close>

definition call_prepare :: "PipelineProperty \<Rightarrow> exn + PipelineProperty" where
  "call_prepare self =
     (case direct_fields self ''prepare'' of
        None \<Rightarrow> Inr (prepare self)
      | Some d \<Rightarrow> Inl (TypeError ''object is not callable''))"

text \<open>
  \<^verbatim>\<open>__init__(self, **kwargs)\<close>: the result is the exception raised, if any, together
  with the instance as the constructor leaves it. The five assignments at its head
  rebind their attributes, whatever \<^verbatim>\<open>setattr\<close> had bound there before.
\<close>

definition dunder_init ::
  "string list \<Rightarrow> PipelineProperty \<Rightarrow> kwargs \<Rightarrow> (exn + unit) \<times> PipelineProperty"
where
  "dunder_init required_attrs self kwargs =
     (let self0 = self\<lparr>dunder_name := Some PyNone, dunder_module := Some PyNone,
                       dunder_doc := Some PyNone,
                       attr_names := Map.empty, options := Map.empty,
                       direct_fields := (direct_fields self)
                         (''__name__'' := None, ''__module__'' := None, ''__doc__'' := None,
                          ''attr_names'' := None, ''options'' := None)\<rparr>
      in case init_loop required_attrs kwargs self0 {} of
           (Inl e, self1, assigned_attrs) \<Rightarrow> (Inl e, self1)
         | (Inr u, self1, assigned_attrs) \<Rightarrow>
             (case lacked_attrs_of required_attrs self1 assigned_attrs of
                Inl e \<Rightarrow> (Inl e, self1)
              | Inr lacked_attrs \<Rightarrow>
                  if lacked_attrs \<noteq> [] then
                    (Inl (TypeError_fmt ''required attrs %r'' (join '', '' lacked_attrs)), self1)
                  else
                    (case call_prepare self1 of
                       Inl e \<Rightarrow> (Inl e, self1)
                     | Inr self2 \<Rightarrow> (Inr (), self2))))"

text \<open>The instance before \<^verbatim>\<open>__init__\<close> runs: no attribute is set.\<close>

definition blank :: PipelineProperty where
  "blank = \<lparr>dunder_name = None, dunder_module = None, dunder_doc = None,
            attr_names = Map.empty, options = Map.empty, direct_fields = Map.empty\<rparr>"

text \<open>
  The call \<^verbatim>\<open>PipelineProperty(**kwargs)\<close>: a fresh instance goes through
  \<^verbatim>\<open>__init__\<close>; the caller gets the instance, or the exception and no instance.
\<close>

definition new :: "string list \<Rightarrow> kwargs \<Rightarrow> exn + PipelineProperty" where
  "new required_attrs kwargs =
     (case dunder_init required_attrs blank kwargs of
        (Inl e, _) \<Rightarrow> Inl e
      | (Inr _, self) \<Rightarrow> Inr self)"

section \<open>Reading a configured attribute\<close>

text \<open>
  \<^verbatim>\<open>get_attr(self, obj, name)\<close>: the dictionary lookup \<^verbatim>\<open>self.attr_names[name]\<close>
  raises \<^verbatim>\<open>KeyError\<close> for an absent key, then \<^verbatim>\<open>getattr\<close> reads the target.
  When \<^verbatim>\<open>setattr\<close> has rebound \<^verbatim>\<open>attr_names\<close>, the attribute is no dictionary and
  the subscript raises a \<^verbatim>\<open>TypeError\<close>; the record's map is empty then, so this
  is the case of an absent key.
\<close>

definition get_attr :: "PipelineProperty \<Rightarrow> target \<Rightarrow> string \<Rightarrow> exn + pyval" where
  "get_attr self obj name =
     (case attr_names self name of
        None \<Rightarrow>
          (case direct_fields self ''attr_names'' of
             None \<Rightarrow> Inl (KeyError name)
           | Some d \<Rightarrow> Inl (TypeError ''object is not subscriptable''))
      | Some attr_name \<Rightarrow> getattr obj attr_name)"

section \<open>The read protocol of the property\<close>

text \<open>
  The state a read runs in: the target objects by address, the environment that
  \<^verbatim>\<open>provide_value\<close> reads and writes besides its argument, and a log with one entry
  (property, address) for each invocation of \<^verbatim>\<open>provide_value\<close>.
\<close>

record 'w world =
  heap :: "nat \<Rightarrow> target"
  env :: 'w
  calls :: "(nat \<times> nat) list"

text \<open>
  \<^verbatim>\<open>provide_value(obj)\<close> is supplied by the subclass: it is given the target object
  and the environment, and returns a value or raises, with the new environment.
\<close>

type_synonym ('w, 'e) provider = "target \<Rightarrow> 'w \<Rightarrow> ('e + pyval) \<times> 'w"

text \<open>
  Modelled from the spec: the read access of the base class \<^verbatim>\<open>cached_property\<close>,
  which \<^verbatim>\<open>PipelineProperty\<close> inherits from \<^verbatim>\<open>werkzeug.utils\<close> and which is not
  among the sources. Following the spec's Lazy Cache: a read through the target at
  address \<open>a\<close> returns the value in the target's slot for the property \<open>k\<close> when there
  is one; otherwise it invokes the provider on the target, stores a returned value in
  that slot and returns it; a failure of the provider passes through and nothing is
  stored.
\<close>

definition dunder_get ::
  "('w, 'e) provider \<Rightarrow> nat \<Rightarrow> nat \<Rightarrow> 'w world \<Rightarrow> ('e + pyval) \<times> 'w world"
where
  "dunder_get provide_value k a s =
     (case slots (heap s a) k of
        Some v \<Rightarrow> (Inr v, s)
      | None \<Rightarrow>
          (let (r, w) = provide_value (heap s a) (env s);
               s1 = s\<lparr>env := w, calls := calls s @ [(k, a)]\<rparr>
           in case r of
                Inl e \<Rightarrow> (Inl e, s1)
              | Inr v \<Rightarrow>
                  (Inr v,
                   s1\<lparr>heap := (heap s1)(a := (heap s1 a)\<lparr>slots := (slots (heap s1 a))(k \<mapsto> v)\<rparr>)\<rparr>)))"

text \<open>\<open>n\<close> reads in a row of the property \<open>k\<close> through the target at \<open>a\<close>.\<close>

fun reads ::
  "('w, 'e) provider \<Rightarrow> nat \<Rightarrow> nat \<Rightarrow> nat \<Rightarrow> 'w world \<Rightarrow> ('e + pyval) list \<times> 'w world"
where
  "reads provide_value k a 0 s = ([], s)"
| "reads provide_value k a (Suc n) s =
     (let (r, s1) = dunder_get provide_value k a s;
          (rs, s2) = reads provide_value k a n s1
      in (r # rs, s2))"

text \<open>
  A sequence of reads, each of a property \<open>k\<close> through the target at an address \<open>a\<close>.
\<close>

fun run ::
  "('w, 'e) provider \<Rightarrow> (nat \<times> nat) list \<Rightarrow> 'w world \<Rightarrow> ('e + pyval) list \<times> 'w world"
where
  "run provide_value [] s = ([], s)"
| "run provide_value ((k, a) # rest) s =
     (let (r, s1) = dunder_get provide_value k a s;
          (rs, s2) = run provide_value rest s1
      in (r # rs, s2))"


text \<open>
  A provider with a call counter as its environment: it raises at its first invocation
  and returns 42 from the second on.
\<close>

definition flaky :: "(nat, string) provider" where
  "flaky obj n = (if n = 0 then Inl ''boom'' else Inr (PyInt 42), Suc n)"


text \<open>A world of targets without attributes and with empty slots.\<close>

definition fresh :: "'w \<Rightarrow> 'w world" where
  "fresh w = \<lparr>heap = (\<lambda>a. \<lparr>obj_attrs = Map.empty, slots = Map.empty\<rparr>), env = w, calls = []\<rparr>"

section \<open>Properties of the built-ins\<close>

lemma join_sublist: "n \<in> set xs \<Longrightarrow> sublist n (join sep xs)"
  by (induction sep xs rule: join.induct) (auto simp: sublist_append)

text \<open>\<open>endswith\<close> is the suffix test of the list library.\<close>

lemma endswith_suffix: "endswith s suf \<longleftrightarrow> suffix suf s"
proof
  assume "endswith s suf"
  then have "s = take (length s - length suf) s @ suf"
    by (metis append_take_drop_id endswith_def)
  then show "suffix suf s" by (rule suffixI)
next
  assume "suffix suf s"
  then obtain zs where "s = zs @ suf" by (rule suffixE)
  then show "endswith s suf" by (simp add: endswith_def)
qed

section \<open>Properties of the constructor\<close>

text \<open>
  The instance has no binding of its own for the attributes the constructor uses.
\<close>

lemma setattr_unreserved:
  assumes "name \<notin> set reserved_attrs"
  shows "\<exists>self1. setattr self name v = Inr self1
    \<and> direct_fields self1 = (direct_fields self)(name \<mapsto> v)
    \<and> attr_names self1 = attr_names self \<and> options self1 = options self"
  using assms by (simp add: setattr_def reserved_attrs_def Let_def)

lemma init_loop_unreserved:
  assumes "set req \<inter> set reserved_attrs = {}"
    and "direct_fields self ''attr_names'' = None"
    and "direct_fields self ''options'' = None"
    and "direct_fields self ''required_attrs'' = None"
  shows "\<exists>self1. init_loop req kw self A = (Inr (), self1, A \<union> fst ` set kw)
    \<and> (\<forall>k. attr_names self1 k =
          (if endswith k ''_attr'' then
             (case map_of (rev kw) k of Some v \<Rightarrow> Some v | None \<Rightarrow> attr_names self k)
           else attr_names self k))
    \<and> (\<forall>k. options self1 k =
          (if \<not> endswith k ''_attr'' \<and> k \<notin> set req then
             (case map_of (rev kw) k of Some v \<Rightarrow> Some v | None \<Rightarrow> options self k)
           else options self k))
    \<and> (\<forall>k. direct_fields self1 k =
          (if \<not> endswith k ''_attr'' \<and> k \<in> set req then
             (case map_of (rev kw) k of Some v \<Rightarrow> Some v | None \<Rightarrow> direct_fields self k)
           else direct_fields self k))"
  using assms(2-4)
proof (induction kw arbitrary: self A)
  case Nil
  then show ?case by simp
next
  case (Cons item kw)
  obtain name v where item: "item = (name, v)" by (cases item)
  consider (attr) "endswith name ''_attr''"
    | (req) "\<not> endswith name ''_attr''" "name \<in> set req"
    | (opt) "\<not> endswith name ''_attr''" "name \<notin> set req"
    by blast
  then show ?case
  proof cases
    case attr
    let ?s = "self\<lparr>attr_names := (attr_names self)(name \<mapsto> v)\<rparr>"
    have step: "init_loop req (item # kw) self A = init_loop req kw ?s (insert name A)"
      using attr Cons.prems by (simp add: item setitem_attr_names_def)
    have "direct_fields ?s ''attr_names'' = None" "direct_fields ?s ''options'' = None"
      "direct_fields ?s ''required_attrs'' = None"
      using Cons.prems by simp_all
    from Cons.IH [OF this, of "insert name A"] obtain self1 where
      l: "init_loop req kw ?s (insert name A) = (Inr (), self1, insert name A \<union> fst ` set kw)"
      and a: "\<forall>k. attr_names self1 k =
          (if endswith k ''_attr'' then
             (case map_of (rev kw) k of Some v \<Rightarrow> Some v | None \<Rightarrow> attr_names ?s k)
           else attr_names ?s k)"
      and o: "\<forall>k. options self1 k =
          (if \<not> endswith k ''_attr'' \<and> k \<notin> set req then
             (case map_of (rev kw) k of Some v \<Rightarrow> Some v | None \<Rightarrow> options ?s k)
           else options ?s k)"
      and d: "\<forall>k. direct_fields self1 k =
          (if \<not> endswith k ''_attr'' \<and> k \<in> set req then
             (case map_of (rev kw) k of Some v \<Rightarrow> Some v | None \<Rightarrow> direct_fields ?s k)
           else direct_fields ?s k)"
      by blast
    have "init_loop req (item # kw) self A = (Inr (), self1, A \<union> fst ` set (item # kw))"
      using step l by (simp add: item)
    moreover have "\<forall>k. attr_names self1 k =
          (if endswith k ''_attr'' then
             (case map_of (rev (item # kw)) k of Some v \<Rightarrow> Some v | None \<Rightarrow> attr_names self k)
           else attr_names self k)"
      using a attr by (auto simp: item split: option.splits if_splits)
    moreover have "\<forall>k. options self1 k =
          (if \<not> endswith k ''_attr'' \<and> k \<notin> set req then
             (case map_of (rev (item # kw)) k of Some v \<Rightarrow> Some v | None \<Rightarrow> options self k)
           else options self k)"
      using o attr by (auto simp: item split: option.splits if_splits)
    moreover have "\<forall>k. direct_fields self1 k =
          (if \<not> endswith k ''_attr'' \<and> k \<in> set req then
             (case map_of (rev (item # kw)) k of Some v \<Rightarrow> Some v | None \<Rightarrow> direct_fields self k)
           else direct_fields self k)"
      using d attr by (auto simp: item split: option.splits if_splits)
    ultimately show ?thesis by blast
  next
    case req
    with assms(1) have nr: "name \<notin> set reserved_attrs" by blast
    from setattr_unreserved [OF nr, of self v] obtain s where
      s: "setattr self name v = Inr s" "direct_fields s = (direct_fields self)(name \<mapsto> v)"
         "attr_names s = attr_names self" "options s = options self"
      by blast
    have ne: "name \<noteq> ''attr_names''" "name \<noteq> ''options''" "name \<noteq> ''required_attrs''"
      using nr by (auto simp: reserved_attrs_def)
    have step: "init_loop req (item # kw) self A = init_loop req kw s (insert name A)"
      using req Cons.prems s(1) by (simp add: item in_required_attrs_def)
    have "direct_fields s ''attr_names'' = None" "direct_fields s ''options'' = None"
      "direct_fields s ''required_attrs'' = None"
      using Cons.prems ne by (simp_all add: s(2))
    from Cons.IH [OF this, of "insert name A"] obtain self1 where
      l: "init_loop req kw s (insert name A) = (Inr (), self1, insert name A \<union> fst ` set kw)"
      and a: "\<forall>k. attr_names self1 k =
          (if endswith k ''_attr'' then
             (case map_of (rev kw) k of Some v \<Rightarrow> Some v | None \<Rightarrow> attr_names s k)
           else attr_names s k)"
      and o: "\<forall>k. options self1 k =
          (if \<not> endswith k ''_attr'' \<and> k \<notin> set req then
             (case map_of (rev kw) k of Some v \<Rightarrow> Some v | None \<Rightarrow> options s k)
           else options s k)"
      and d: "\<forall>k. direct_fields self1 k =
          (if \<not> endswith k ''_attr'' \<and> k \<in> set req then
             (case map_of (rev kw) k of Some v \<Rightarrow> Some v | None \<Rightarrow> direct_fields s k)
           else direct_fields s k)"
      by blast
    have "init_loop req (item # kw) self A = (Inr (), self1, A \<union> fst ` set (item # kw))"
      using step l by (simp add: item)
    moreover have "\<forall>k. attr_names self1 k =
          (if endswith k ''_attr'' then
             (case map_of (rev (item # kw)) k of Some v \<Rightarrow> Some v | None \<Rightarrow> attr_names self k)
           else attr_names self k)"
      using a req by (auto simp: item s(3) split: option.splits if_splits)
    moreover have "\<forall>k. options self1 k =
          (if \<not> endswith k ''_attr'' \<and> k \<notin> set req then
             (case map_of (rev (item # kw)) k of Some v \<Rightarrow> Some v | None \<Rightarrow> options self k)
           else options self k)"
      using o req by (auto simp: item s(4) split: option.splits if_splits)
    moreover have "\<forall>k. direct_fields self1 k =
          (if \<not> endswith k ''_attr'' \<and> k \<in> set req then
             (case map_of (rev (item # kw)) k of Some v \<Rightarrow> Some v | None \<Rightarrow> direct_fields self k)
           else direct_fields self k)"
      using d req by (auto simp: item s(2) split: option.splits if_splits)
    ultimately show ?thesis by blast
  next
    case opt
    let ?s = "self\<lparr>options := (options self)(name \<mapsto> v)\<rparr>"
    have step: "init_loop req (item # kw) self A = init_loop req kw ?s (insert name A)"
      using opt Cons.prems by (simp add: item in_required_attrs_def setitem_options_def)
    have "direct_fields ?s ''attr_names'' = None" "direct_fields ?s ''options'' = None"
      "direct_fields ?s ''required_attrs'' = None"
      using Cons.prems by simp_all
    from Cons.IH [OF this, of "insert name A"] obtain self1 where
      l: "init_loop req kw ?s (insert name A) = (Inr (), self1, insert name A \<union> fst ` set kw)"
      and a: "\<forall>k. attr_names self1 k =
          (if endswith k ''_attr'' then
             (case map_of (rev kw) k of Some v \<Rightarrow> Some v | None \<Rightarrow> attr_names ?s k)
           else attr_names ?s k)"
      and o: "\<forall>k. options self1 k =
          (if \<not> endswith k ''_attr'' \<and> k \<notin> set req then
             (case map_of (rev kw) k of Some v \<Rightarrow> Some v | None \<Rightarrow> options ?s k)
           else options ?s k)"
      and d: "\<forall>k. direct_fields self1 k =
          (if \<not> endswith k ''_attr'' \<and> k \<in> set req then
             (case map_of (rev kw) k of Some v \<Rightarrow> Some v | None \<Rightarrow> direct_fields ?s k)
           else direct_fields ?s k)"
      by blast
    have "init_loop req (item # kw) self A = (Inr (), self1, A \<union> fst ` set (item # kw))"
      using step l by (simp add: item)
    moreover have "\<forall>k. attr_names self1 k =
          (if endswith k ''_attr'' then
             (case map_of (rev (item # kw)) k of Some v \<Rightarrow> Some v | None \<Rightarrow> attr_names self k)
           else attr_names self k)"
      using a opt by (auto simp: item split: option.splits if_splits)
    moreover have "\<forall>k. options self1 k =
          (if \<not> endswith k ''_attr'' \<and> k \<notin> set req then
             (case map_of (rev (item # kw)) k of Some v \<Rightarrow> Some v | None \<Rightarrow> options self k)
           else options self k)"
      using o opt by (auto simp: item split: option.splits if_splits)
    moreover have "\<forall>k. direct_fields self1 k =
          (if \<not> endswith k ''_attr'' \<and> k \<in> set req then
             (case map_of (rev (item # kw)) k of Some v \<Rightarrow> Some v | None \<Rightarrow> direct_fields self k)
           else direct_fields self k)"
      using d opt by (auto simp: item split: option.splits if_splits)
    ultimately show ?thesis by blast
  qed
qed

lemma map_of_rev_keys: "map_of (rev kw) k \<noteq> None \<longleftrightarrow> k \<in> fst ` set kw"
  by (simp add: map_of_eq_None_iff)

text \<open>The constructor when no required name is reserved.\<close>

lemma dunder_init_unreserved:
  assumes "set req \<inter> set reserved_attrs = {}"
  shows "\<exists>self1.
    dunder_init req blank kw =
      (if set req \<subseteq> fst ` set kw then Inr ()
       else Inl (TypeError_fmt ''required attrs %r''
              (join '', '' (filter (\<lambda>n. n \<notin> fst ` set kw) req))), self1)
    \<and> (\<forall>k. attr_names self1 k = (if endswith k ''_attr'' then map_of (rev kw) k else None))
    \<and> (\<forall>k. options self1 k =
          (if \<not> endswith k ''_attr'' \<and> k \<notin> set req then map_of (rev kw) k else None))
    \<and> (\<forall>k. direct_fields self1 k =
          (if \<not> endswith k ''_attr'' \<and> k \<in> set req then map_of (rev kw) k else None))"
proof -
  let ?s0 = "blank\<lparr>dunder_name := Some PyNone, dunder_module := Some PyNone,
                   dunder_doc := Some PyNone,
                   attr_names := Map.empty, options := Map.empty,
                   direct_fields := (direct_fields blank)
                     (''__name__'' := None, ''__module__'' := None, ''__doc__'' := None,
                      ''attr_names'' := None, ''options'' := None)\<rparr>"
  have e: "attr_names ?s0 = Map.empty" "options ?s0 = Map.empty" "direct_fields ?s0 = Map.empty"
    by (simp_all add: blank_def)
  have i: "direct_fields ?s0 ''attr_names'' = None" "direct_fields ?s0 ''options'' = None"
    "direct_fields ?s0 ''required_attrs'' = None"
    by (simp_all add: blank_def)
  from init_loop_unreserved [OF assms i, of kw "{}"] obtain self1 where
    l: "init_loop req kw ?s0 {} = (Inr (), self1, fst ` set kw)"
    and a: "\<forall>k. attr_names self1 k =
          (if endswith k ''_attr'' then
             (case map_of (rev kw) k of Some v \<Rightarrow> Some v | None \<Rightarrow> attr_names ?s0 k)
           else attr_names ?s0 k)"
    and o: "\<forall>k. options self1 k =
          (if \<not> endswith k ''_attr'' \<and> k \<notin> set req then
             (case map_of (rev kw) k of Some v \<Rightarrow> Some v | None \<Rightarrow> options ?s0 k)
           else options ?s0 k)"
    and d: "\<forall>k. direct_fields self1 k =
          (if \<not> endswith k ''_attr'' \<and> k \<in> set req then
             (case map_of (rev kw) k of Some v \<Rightarrow> Some v | None \<Rightarrow> direct_fields ?s0 k)
           else direct_fields ?s0 k)"
    by auto
  have a': "\<forall>k. attr_names self1 k = (if endswith k ''_attr'' then map_of (rev kw) k else None)"
    using a by (simp add: e split: option.splits)
  have o': "\<forall>k. options self1 k =
          (if \<not> endswith k ''_attr'' \<and> k \<notin> set req then map_of (rev kw) k else None)"
    using o by (simp add: e split: option.splits)
  have d': "\<forall>k. direct_fields self1 k =
          (if \<not> endswith k ''_attr'' \<and> k \<in> set req then map_of (rev kw) k else None)"
    using d by (simp add: e split: option.splits)
  have nr: "''required_attrs'' \<notin> set req" "''prepare'' \<notin> set req"
    using assms by (auto simp: reserved_attrs_def)
  have r: "direct_fields self1 ''required_attrs'' = None" "direct_fields self1 ''prepare'' = None"
    using d' nr by simp_all
  have f: "filter (\<lambda>n. n \<notin> fst ` set kw) req = [] \<longleftrightarrow> set req \<subseteq> fst ` set kw"
    by (auto simp: filter_empty_conv)
  have "dunder_init req blank kw =
      (if set req \<subseteq> fst ` set kw then Inr ()
       else Inl (TypeError_fmt ''required attrs %r''
              (join '', '' (filter (\<lambda>n. n \<notin> fst ` set kw) req))), self1)"
    using l r f by (simp add: dunder_init_def lacked_attrs_of_def call_prepare_def prepare_def)
  with a' o' d' show ?thesis by blast
qed

lemma dunder_init_result:
  assumes "set req \<inter> set reserved_attrs = {}"
  shows "fst (dunder_init req blank kw) =
     (if set req \<subseteq> fst ` set kw then Inr ()
      else Inl (TypeError_fmt ''required attrs %r''
             (join '', '' (filter (\<lambda>n. n \<notin> fst ` set kw) req))))"
proof -
  from dunder_init_unreserved [OF assms, of kw] obtain self1 where
    "dunder_init req blank kw =
      (if set req \<subseteq> fst ` set kw then Inr ()
       else Inl (TypeError_fmt ''required attrs %r''
              (join '', '' (filter (\<lambda>n. n \<notin> fst ` set kw) req))), self1)"
    by blast
  then show ?thesis by (simp only: fst_conv)
qed

lemma new_eq:
  assumes "set req \<inter> set reserved_attrs = {}"
  shows "new req kw =
     (if set req \<subseteq> fst ` set kw then Inr (snd (dunder_init req blank kw))
      else Inl (TypeError_fmt ''required attrs %r''
             (join '', '' (filter (\<lambda>n. n \<notin> fst ` set kw) req))))"
proof -
  from dunder_init_unreserved [OF assms, of kw] obtain self1 where
    "dunder_init req blank kw =
      (if set req \<subseteq> fst ` set kw then Inr ()
       else Inl (TypeError_fmt ''required attrs %r''
              (join '', '' (filter (\<lambda>n. n \<notin> fst ` set kw) req))), self1)"
    by blast
  then show ?thesis by (simp add: new_def)
qed

lemma constructed_attr_names:
  assumes "set req \<inter> set reserved_attrs = {}"
  shows "attr_names (snd (dunder_init req blank kw)) k =
     (if endswith k ''_attr'' then map_of (rev kw) k else None)"
proof -
  from dunder_init_unreserved [OF assms, of kw] obtain self1 r where
    "dunder_init req blank kw = (r, self1)" and
    "\<forall>k. attr_names self1 k =
     (if endswith k ''_attr'' then map_of (rev kw) k else None)"
    by blast
  then show ?thesis by simp
qed

lemma constructed_options:
  assumes "set req \<inter> set reserved_attrs = {}"
  shows "options (snd (dunder_init req blank kw)) k =
     (if \<not> endswith k ''_attr'' \<and> k \<notin> set req then map_of (rev kw) k else None)"
proof -
  from dunder_init_unreserved [OF assms, of kw] obtain self1 r where
    "dunder_init req blank kw = (r, self1)" and
    "\<forall>k. options self1 k =
     (if \<not> endswith k ''_attr'' \<and> k \<notin> set req then map_of (rev kw) k else None)"
    by blast
  then show ?thesis by simp
qed

lemma constructed_direct_fields:
  assumes "set req \<inter> set reserved_attrs = {}"
  shows "direct_fields (snd (dunder_init req blank kw)) k =
     (if \<not> endswith k ''_attr'' \<and> k \<in> set req then map_of (rev kw) k else None)"
proof -
  from dunder_init_unreserved [OF assms, of kw] obtain self1 r where
    "dunder_init req blank kw = (r, self1)" and
    "\<forall>k. direct_fields self1 k =
     (if \<not> endswith k ''_attr'' \<and> k \<in> set req then map_of (rev kw) k else None)"
    by blast
  then show ?thesis by simp
qed









text \<open>For the items of a dictionary the last binding of a key is its only one.\<close>

lemma map_of_rev_distinct:
  assumes "distinct (map fst kw)"
  shows "map_of (rev kw) k = Some v \<longleftrightarrow> (k, v) \<in> set kw"
proof -
  have "distinct (map fst (rev kw))"
    using assms by (simp add: rev_map [symmetric])
  then have "map_of (rev kw) k = Some v \<longleftrightarrow> (k, v) \<in> set (rev kw)"
    by (rule map_of_eq_Some_iff)
  then show ?thesis by simp
qed

text \<open>The definitions that evaluate a call of the constructor.\<close>

lemmas ctor_eval =
  new_def dunder_init_def blank_def setattr_def endswith_def setitem_attr_names_def
  setitem_options_def in_required_attrs_def lacked_attrs_of_def call_prepare_def prepare_def
  readonly_attrs_def

section \<open>Properties of the read protocol\<close>

lemma dunder_get_cached:
  "slots (heap s a) k = Some v \<Longrightarrow> dunder_get pv k a s = (Inr v, s)"
  by (simp add: dunder_get_def)

lemma dunder_get_raises:
  "slots (heap s a) k = None \<Longrightarrow> pv (heap s a) (env s) = (Inl e, w) \<Longrightarrow>
   dunder_get pv k a s = (Inl e, s\<lparr>env := w, calls := calls s @ [(k, a)]\<rparr>)"
  by (simp add: dunder_get_def)

lemma dunder_get_returns:
  "slots (heap s a) k = None \<Longrightarrow> pv (heap s a) (env s) = (Inr v, w) \<Longrightarrow>
   dunder_get pv k a s =
     (Inr v, s\<lparr>env := w, calls := calls s @ [(k, a)],
               heap := (heap s)(a := (heap s a)\<lparr>slots := (slots (heap s a))(k \<mapsto> v)\<rparr>)\<rparr>)"
  by (simp add: dunder_get_def)

lemma reads_cached:
  "slots (heap s a) k = Some v \<Longrightarrow> reads pv k a n s = (replicate n (Inr v), s)"
  by (induction n) (simp_all add: dunder_get_cached)






lemma run_Cons:
  assumes "run pv ((k, a) # tr) s = (rs, s2)"
  obtains r s1 rs' where "dunder_get pv k a s = (r, s1)" "run pv tr s1 = (rs', s2)" "rs = r # rs'"
  using assms by (auto split: prod.splits)

lemma run_length: "run pv tr s = (rs, s1) \<Longrightarrow> length rs = length tr"
proof (induction tr arbitrary: s rs)
  case Nil
  then show ?case by simp
next
  case (Cons p tr)
  obtain k a where p: "p = (k, a)" by (cases p)
  from Cons.prems [unfolded p] show ?case
    by (rule run_Cons) (use Cons.IH in auto)
qed





text \<open>\<open>n\<close> reads in a row are a sequence of reads of one pair.\<close>

lemma reads_run: "reads pv k a n s = run pv (replicate n (k, a)) s"
  by (induction n arbitrary: s) (simp_all split: prod.splits)

text \<open>
  A provider that reads a configured attribute through \<^verbatim>\<open>get_attr\<close>: when the
  field is absent from the target, the error of \<^verbatim>\<open>get_attr\<close> is the outcome of
  the read of the property.
\<close>

lemma get_attr_error_through_read:
  assumes "slots (heap s a) k = None"
    and "attr_names self name = Some (PyStr f)"
    and "obj_attrs (heap s a) f = None"
  shows "fst (dunder_get (\<lambda>obj w. (get_attr self obj name, w)) k a s) = Inl (AttributeError f)"
  using assms by (simp add: dunder_get_def get_attr_def getattr_def)

section \<open>Claims about the constructor\<close>

text \<open>
  In the statements below \<open>map_of (rev kwargs)\<close> is the dictionary that the item list
  \<open>kwargs\<close> denotes: \<open>map_of (rev kwargs) name = Some v\<close> says that \<open>name\<close> is a
  key and \<open>v\<close> its value (for the items of a dictionary, whose keys are distinct,
  that is \<open>(name, v) \<in> set kwargs\<close>). A required name is reserved when it is one of
  \<open>reserved_attrs\<close>.
\<close>

text \<open>
  C1, as stated, fails for a class that requires a reserved name. With \<^verbatim>\<open>options\<close>
  required and supplied, \<^verbatim>\<open>setattr\<close> rebinds \<^verbatim>\<open>self.options\<close> to the value 1, and
  the assignment \<^verbatim>\<open>self.options[name] = value\<close> for the next keyword argument raises:
  every required name is supplied, and the construction fails.
\<close>

theorem reserved_required_name_counterexample:
  "new [''options''] [(''options'', PyInt 1), (''x'', PyInt 2)] =
   Inl (TypeError ''object does not support item assignment'')"
  by (simp add: ctor_eval)

text \<open>
  C1, amended. When every name of \<^verbatim>\<open>required_attrs\<close> is among the keyword arguments
  and no required name is reserved, the construction succeeds, and every name is
  classified by the fixed precedence: a key ending in \<^verbatim>\<open>_attr\<close> is in \<open>attr_names\<close>
  with its value; otherwise a key in \<^verbatim>\<open>required_attrs\<close> is a direct field; otherwise
  the key is in \<open>options\<close>. Each destination holds exactly the keys of its class, so
  every key has one destination and only one, and a name that is no key is in none.
\<close>

theorem init_classifies:
  assumes "set required_attrs \<subseteq> fst ` set kwargs"
    and "set required_attrs \<inter> set reserved_attrs = {}"
  shows "\<exists>self. new required_attrs kwargs = Inr self \<and>
    (\<forall>name.
       attr_names self name =
         (if endswith name ''_attr'' then map_of (rev kwargs) name else None) \<and>
       direct_fields self name =
         (if \<not> endswith name ''_attr'' \<and> name \<in> set required_attrs
          then map_of (rev kwargs) name else None) \<and>
       options self name =
         (if \<not> endswith name ''_attr'' \<and> name \<notin> set required_attrs
          then map_of (rev kwargs) name else None))"
proof -
  let ?self = "snd (dunder_init required_attrs blank kwargs)"
  have "new required_attrs kwargs = Inr ?self"
    using assms(1) by (simp add: new_eq [OF assms(2)])
  moreover have "\<forall>name.
       attr_names ?self name =
         (if endswith name ''_attr'' then map_of (rev kwargs) name else None) \<and>
       direct_fields ?self name =
         (if \<not> endswith name ''_attr'' \<and> name \<in> set required_attrs
          then map_of (rev kwargs) name else None) \<and>
       options ?self name =
         (if \<not> endswith name ''_attr'' \<and> name \<notin> set required_attrs
          then map_of (rev kwargs) name else None)"
    by (simp only: constructed_attr_names [OF assms(2)] constructed_direct_fields [OF assms(2)]
        constructed_options [OF assms(2)]) simp
  ultimately show ?thesis by blast
qed

theorem init_classifies_witness:
  "set [''url''] \<subseteq> fst ` set [(''url'', PyStr ''u''), (''raw_html_attr'', PyStr ''raw_html''),
                                (''use_proxy'', PyBool False)]
   \<and> set [''url''] \<inter> set reserved_attrs = {}
   \<and> (\<exists>self. new [''url''] [(''url'', PyStr ''u''), (''raw_html_attr'', PyStr ''raw_html''),
                             (''use_proxy'', PyBool False)] = Inr self
        \<and> attr_names self ''raw_html_attr'' = Some (PyStr ''raw_html'')
        \<and> direct_fields self ''raw_html_attr'' = None
        \<and> options self ''raw_html_attr'' = None
        \<and> direct_fields self ''url'' = Some (PyStr ''u'')
        \<and> attr_names self ''url'' = None
        \<and> options self ''url'' = None
        \<and> options self ''use_proxy'' = Some (PyBool False)
        \<and> attr_names self ''use_proxy'' = None
        \<and> direct_fields self ''use_proxy'' = None)"
proof -
  let ?kw = "[(''url'', PyStr ''u''), (''raw_html_attr'', PyStr ''raw_html''),
              (''use_proxy'', PyBool False)]"
  have h: "set [''url''] \<subseteq> fst ` set ?kw" by simp
  have nc: "set [''url''] \<inter> set reserved_attrs = {}"
    by (simp add: reserved_attrs_def readonly_attrs_def)
  from init_classifies [OF h nc] obtain self where
    n: "new [''url''] ?kw = Inr self" and
    c: "\<And>name.
       attr_names self name =
         (if endswith name ''_attr'' then map_of (rev ?kw) name else None) \<and>
       direct_fields self name =
         (if \<not> endswith name ''_attr'' \<and> name \<in> set [''url'']
          then map_of (rev ?kw) name else None) \<and>
       options self name =
         (if \<not> endswith name ''_attr'' \<and> name \<notin> set [''url'']
          then map_of (rev ?kw) name else None)"
    by blast
  have a: "attr_names self ''raw_html_attr'' = Some (PyStr ''raw_html'')
      \<and> direct_fields self ''raw_html_attr'' = None \<and> options self ''raw_html_attr'' = None"
    using c [of "''raw_html_attr''"] by (simp add: endswith_def)
  have b: "direct_fields self ''url'' = Some (PyStr ''u'')
      \<and> attr_names self ''url'' = None \<and> options self ''url'' = None"
    using c [of "''url''"] by (simp add: endswith_def)
  have d: "options self ''use_proxy'' = Some (PyBool False)
      \<and> attr_names self ''use_proxy'' = None \<and> direct_fields self ''use_proxy'' = None"
    using c [of "''use_proxy''"] by (simp add: endswith_def)
  show ?thesis using h nc n a b d by blast
qed

text \<open>
  C2, as stated, fails for a class that requires a reserved name. With \<^verbatim>\<open>options\<close>
  and \<^verbatim>\<open>url\<close> required and \<^verbatim>\<open>url\<close> missing, the constructor does not reach its
  check: the loop raises the \<^verbatim>\<open>TypeError\<close> of the item assignment, which names no
  missing attribute.
\<close>

theorem missing_with_reserved_counterexample:
  "set [''options'', ''url''] - fst ` set [(''options'', PyInt 1), (''x'', PyInt 2)] = {''url''}
   \<and> new [''options'', ''url''] [(''options'', PyInt 1), (''x'', PyInt 2)] =
       Inl (TypeError ''object does not support item assignment'')"
  by (simp add: ctor_eval)

text \<open>
  C2, amended. When one or more names of \<^verbatim>\<open>required_attrs\<close> are missing from the
  keyword arguments and no required name is reserved, the construction fails with the
  \<^verbatim>\<open>TypeError\<close> of the constructor, and the string formatted into its message is the
  comma-separated list of exactly the missing names: every missing name occurs in it.
\<close>

theorem init_missing_required:
  assumes "set required_attrs - fst ` set kwargs \<noteq> {}"
    and "set required_attrs \<inter> set reserved_attrs = {}"
  shows "\<exists>lacked_attrs.
    new required_attrs kwargs =
      Inl (TypeError_fmt ''required attrs %r'' (join '', '' lacked_attrs)) \<and>
    set lacked_attrs = set required_attrs - fst ` set kwargs \<and>
    (\<forall>n \<in> set required_attrs - fst ` set kwargs. sublist n (join '', '' lacked_attrs))"
proof -
  let ?lacked = "filter (\<lambda>n. n \<notin> fst ` set kwargs) required_attrs"
  have "\<not> set required_attrs \<subseteq> fst ` set kwargs"
    using assms(1) by blast
  then have "new required_attrs kwargs =
      Inl (TypeError_fmt ''required attrs %r'' (join '', '' ?lacked))"
    by (simp add: new_eq [OF assms(2)])
  moreover have s: "set ?lacked = set required_attrs - fst ` set kwargs"
    by auto
  moreover have "\<forall>n \<in> set required_attrs - fst ` set kwargs. sublist n (join '', '' ?lacked)"
    using s join_sublist by blast
  ultimately show ?thesis by blast
qed

theorem init_missing_required_witness:
  "set [''url'', ''site''] - fst ` set [(''use_proxy'', PyBool False)] \<noteq> {}
   \<and> set [''url'', ''site''] \<inter> set reserved_attrs = {}
   \<and> new [''url'', ''site''] [(''use_proxy'', PyBool False)] =
       Inl (TypeError_fmt ''required attrs %r'' ''url, site'')
   \<and> (\<exists>lacked_attrs.
        new [''url'', ''site''] [(''use_proxy'', PyBool False)] =
          Inl (TypeError_fmt ''required attrs %r'' (join '', '' lacked_attrs))
        \<and> set lacked_attrs = {''url'', ''site''}
        \<and> sublist ''url'' (join '', '' lacked_attrs)
        \<and> sublist ''site'' (join '', '' lacked_attrs))"
proof -
  let ?kw = "[(''use_proxy'', PyBool False)]"
  have h: "set [''url'', ''site''] - fst ` set ?kw \<noteq> {}" by simp
  have nc: "set [''url'', ''site''] \<inter> set reserved_attrs = {}"
    by (simp add: reserved_attrs_def readonly_attrs_def)
  have e: "set [''url'', ''site''] - fst ` set ?kw = {''url'', ''site''}" by auto
  from init_missing_required [OF h nc] obtain lacked_attrs where
    n: "new [''url'', ''site''] ?kw =
          Inl (TypeError_fmt ''required attrs %r'' (join '', '' lacked_attrs))" and
    s: "set lacked_attrs = set [''url'', ''site''] - fst ` set ?kw" and
    l: "\<forall>n \<in> set [''url'', ''site''] - fst ` set ?kw. sublist n (join '', '' lacked_attrs)"
    by blast
  have v: "new [''url'', ''site''] ?kw = Inl (TypeError_fmt ''required attrs %r'' ''url, site'')"
    by (simp add: ctor_eval)
  have s': "set lacked_attrs = {''url'', ''site''}"
    using s e by (rule trans)
  have u1: "sublist ''url'' (join '', '' lacked_attrs)"
    using l [unfolded e] by (rule bspec) simp
  have u2: "sublist ''site'' (join '', '' lacked_attrs)"
    using l [unfolded e] by (rule bspec) simp
  have "\<exists>lacked_attrs.
        new [''url'', ''site''] ?kw =
          Inl (TypeError_fmt ''required attrs %r'' (join '', '' lacked_attrs))
        \<and> set lacked_attrs = {''url'', ''site''}
        \<and> sublist ''url'' (join '', '' lacked_attrs)
        \<and> sublist ''site'' (join '', '' lacked_attrs)"
    using n s' u1 u2 by blast
  with h nc v show ?thesis by (intro conjI)
qed

text \<open>
  C8, as stated, fails: the check for missing names runs after the loop. With
  \<^verbatim>\<open>site\<close> missing, the constructor raises, and by then the instance holds the
  field \<^verbatim>\<open>url\<close>, the entry \<^verbatim>\<open>raw_html_attr\<close> of \<open>attr_names\<close> and the entry
  \<^verbatim>\<open>use_proxy\<close> of \<open>options\<close>.
\<close>

theorem init_assigns_before_check_counterexample:
  "dunder_init [''url'', ''site''] blank
     [(''url'', PyStr ''u''), (''raw_html_attr'', PyStr ''raw_html''), (''use_proxy'', PyBool False)] =
   (Inl (TypeError_fmt ''required attrs %r'' ''site''),
    \<lparr>dunder_name = Some PyNone, dunder_module = Some PyNone, dunder_doc = Some PyNone,
     attr_names = [''raw_html_attr'' \<mapsto> PyStr ''raw_html''],
     options = [''use_proxy'' \<mapsto> PyBool False],
     direct_fields = [''url'' \<mapsto> PyStr ''u'']\<rparr>)"
  by (simp add: ctor_eval)

text \<open>
  C8, amended. When a required name is missing and no required name is reserved, the
  call of the constructor yields the error and no instance, and \<^verbatim>\<open>__init__\<close> raises
  only after its loop: on the instance it leaves behind, every supplied keyword argument
  is stored in its destination, as in a successful construction.
\<close>

theorem init_failure_after_loop:
  assumes "set required_attrs - fst ` set kwargs \<noteq> {}"
    and "set required_attrs \<inter> set reserved_attrs = {}"
  shows "(\<exists>e. new required_attrs kwargs = Inl e) \<and>
    (\<exists>e. fst (dunder_init required_attrs blank kwargs) = Inl e) \<and>
    (\<forall>name.
       attr_names (snd (dunder_init required_attrs blank kwargs)) name =
         (if endswith name ''_attr'' then map_of (rev kwargs) name else None) \<and>
       direct_fields (snd (dunder_init required_attrs blank kwargs)) name =
         (if \<not> endswith name ''_attr'' \<and> name \<in> set required_attrs
          then map_of (rev kwargs) name else None) \<and>
       options (snd (dunder_init required_attrs blank kwargs)) name =
         (if \<not> endswith name ''_attr'' \<and> name \<notin> set required_attrs
          then map_of (rev kwargs) name else None))"
proof -
  have m: "\<not> set required_attrs \<subseteq> fst ` set kwargs"
    using assms(1) by blast
  then have "\<exists>e. new required_attrs kwargs = Inl e"
    by (simp add: new_eq [OF assms(2)])
  moreover from m have "\<exists>e. fst (dunder_init required_attrs blank kwargs) = Inl e"
    by (simp add: dunder_init_result [OF assms(2)])
  moreover have "\<forall>name.
       attr_names (snd (dunder_init required_attrs blank kwargs)) name =
         (if endswith name ''_attr'' then map_of (rev kwargs) name else None) \<and>
       direct_fields (snd (dunder_init required_attrs blank kwargs)) name =
         (if \<not> endswith name ''_attr'' \<and> name \<in> set required_attrs
          then map_of (rev kwargs) name else None) \<and>
       options (snd (dunder_init required_attrs blank kwargs)) name =
         (if \<not> endswith name ''_attr'' \<and> name \<notin> set required_attrs
          then map_of (rev kwargs) name else None)"
    by (simp only: constructed_attr_names [OF assms(2)] constructed_direct_fields [OF assms(2)]
        constructed_options [OF assms(2)]) simp
  ultimately show ?thesis by (intro conjI)
qed

theorem init_failure_after_loop_witness:
  "set [''url'', ''site''] - fst ` set [(''url'', PyStr ''u''), (''page_attr'', PyStr ''page''),
                                        (''timeout'', PyInt 3)] \<noteq> {}
   \<and> set [''url'', ''site''] \<inter> set reserved_attrs = {}
   \<and> (\<exists>e. new [''url'', ''site''] [(''url'', PyStr ''u''), (''page_attr'', PyStr ''page''),
                                    (''timeout'', PyInt 3)] = Inl e)
   \<and> attr_names (snd (dunder_init [''url'', ''site''] blank
        [(''url'', PyStr ''u''), (''page_attr'', PyStr ''page''), (''timeout'', PyInt 3)]))
        ''page_attr'' = Some (PyStr ''page'')
   \<and> direct_fields (snd (dunder_init [''url'', ''site''] blank
        [(''url'', PyStr ''u''), (''page_attr'', PyStr ''page''), (''timeout'', PyInt 3)]))
        ''url'' = Some (PyStr ''u'')
   \<and> options (snd (dunder_init [''url'', ''site''] blank
        [(''url'', PyStr ''u''), (''page_attr'', PyStr ''page''), (''timeout'', PyInt 3)]))
        ''timeout'' = Some (PyInt 3)"
proof -
  let ?kw = "[(''url'', PyStr ''u''), (''page_attr'', PyStr ''page''), (''timeout'', PyInt 3)]"
  let ?self = "snd (dunder_init [''url'', ''site''] blank ?kw)"
  have h: "set [''url'', ''site''] - fst ` set ?kw \<noteq> {}" by simp
  have nc: "set [''url'', ''site''] \<inter> set reserved_attrs = {}"
    by (simp add: reserved_attrs_def readonly_attrs_def)
  note t = init_failure_after_loop [OF h nc]
  from t have e: "\<exists>e. new [''url'', ''site''] ?kw = Inl e" by (rule conjunct1)
  from t have c: "\<forall>name.
       attr_names ?self name =
         (if endswith name ''_attr'' then map_of (rev ?kw) name else None) \<and>
       direct_fields ?self name =
         (if \<not> endswith name ''_attr'' \<and> name \<in> set [''url'', ''site'']
          then map_of (rev ?kw) name else None) \<and>
       options ?self name =
         (if \<not> endswith name ''_attr'' \<and> name \<notin> set [''url'', ''site'']
          then map_of (rev ?kw) name else None)"
    by (intro conjunct2 [OF conjunct2 [OF t]])
  have a: "attr_names ?self ''page_attr'' = Some (PyStr ''page'')"
    using c [rule_format, of "''page_attr''"] by (simp add: endswith_def)
  have b: "direct_fields ?self ''url'' = Some (PyStr ''u'')"
    using c [rule_format, of "''url''"] by (simp add: endswith_def)
  have d: "options ?self ''timeout'' = Some (PyInt 3)"
    using c [rule_format, of "''timeout''"] by (simp add: endswith_def)
  from h nc e a b d show ?thesis by (intro conjI)
qed




text \<open>
  C10, as stated, fails for a class that also requires a reserved name. With
  \<^verbatim>\<open>x_attr\<close> and \<^verbatim>\<open>attr_names\<close> required and both supplied, \<^verbatim>\<open>setattr\<close> rebinds
  \<^verbatim>\<open>self.attr_names\<close> to the value 1, and the assignment
  \<^verbatim>\<open>self.attr_names[name] = value\<close> for \<^verbatim>\<open>x_attr\<close> raises.
\<close>

theorem suffix_with_reserved_counterexample:
  "new [''x_attr'', ''attr_names''] [(''attr_names'', PyInt 1), (''x_attr'', PyStr ''f'')] =
   Inl (TypeError ''object does not support item assignment'')"
  by (simp add: ctor_eval)

text \<open>
  C10, amended. When a name of \<^verbatim>\<open>required_attrs\<close> ends in \<^verbatim>\<open>_attr\<close>, the keyword
  arguments supply it with every other required name, and no required name is reserved,
  the construction succeeds, the value is stored in \<open>attr_names\<close> under that name, and
  no direct field (and no option) of that name is set.
\<close>

theorem required_attr_with_suffix:
  assumes "name \<in> set required_attrs"
    and "endswith name ''_attr''"
    and "set required_attrs \<subseteq> fst ` set kwargs"
    and "set required_attrs \<inter> set reserved_attrs = {}"
  shows "\<exists>self v. new required_attrs kwargs = Inr self \<and>
    map_of (rev kwargs) name = Some v \<and>
    attr_names self name = Some v \<and> direct_fields self name = None \<and> options self name = None"
proof -
  let ?self = "snd (dunder_init required_attrs blank kwargs)"
  have n: "new required_attrs kwargs = Inr ?self"
    using assms(3) by (simp add: new_eq [OF assms(4)])
  from assms(1,3) have "name \<in> fst ` set kwargs" by blast
  then obtain v where v: "map_of (rev kwargs) name = Some v"
    using map_of_rev_keys [of kwargs name] by blast
  have "attr_names ?self name = Some v"
    using assms(2) v by (simp add: constructed_attr_names [OF assms(4)])
  moreover have "direct_fields ?self name = None"
    using assms(2) by (simp add: constructed_direct_fields [OF assms(4)])
  moreover have "options ?self name = None"
    using assms(2) by (simp add: constructed_options [OF assms(4)])
  ultimately show ?thesis using n v by blast
qed

theorem required_attr_with_suffix_witness:
  "''html_attr'' \<in> set [''html_attr''] \<and> endswith ''html_attr'' ''_attr''
   \<and> set [''html_attr''] \<subseteq> fst ` set [(''html_attr'', PyStr ''body'')]
   \<and> set [''html_attr''] \<inter> set reserved_attrs = {}
   \<and> (\<exists>self. new [''html_attr''] [(''html_attr'', PyStr ''body'')] = Inr self
        \<and> attr_names self ''html_attr'' = Some (PyStr ''body'')
        \<and> direct_fields self ''html_attr'' = None)"
proof -
  let ?kw = "[(''html_attr'', PyStr ''body'')]"
  have m: "''html_attr'' \<in> set [''html_attr'']" by simp
  have e: "endswith ''html_attr'' ''_attr''" by (simp add: endswith_def)
  have s: "set [''html_attr''] \<subseteq> fst ` set ?kw" by simp
  have nc: "set [''html_attr''] \<inter> set reserved_attrs = {}"
    by (simp add: reserved_attrs_def readonly_attrs_def)
  from required_attr_with_suffix [OF m e s nc] obtain self v where
    n: "new [''html_attr''] ?kw = Inr self" and
    "map_of (rev ?kw) ''html_attr'' = Some v" and
    r: "attr_names self ''html_attr'' = Some v" "direct_fields self ''html_attr'' = None"
    by blast
  then have "v = PyStr ''body''" by simp
  with m e s nc n r show ?thesis by blast
qed

section \<open>Claims about \<^verbatim>\<open>get_attr\<close>\<close>

text \<open>
  C5. When \<open>attr_names\<close> maps the logical name to a literal field name and the target
  object has a field of that name, \<^verbatim>\<open>get_attr\<close> returns the value of that field.
\<close>

theorem get_attr_returns_field:
  assumes "attr_names self name = Some (PyStr f)"
    and "obj_attrs obj f = Some v"
  shows "get_attr self obj name = Inr v"
  using assms by (simp add: get_attr_def getattr_def)

text \<open>
  The spec's example: \<^verbatim>\<open>raw-content\<close> is registered for the field \<^verbatim>\<open>body_text\<close>,
  which holds \<^verbatim>\<open>hello\<close>.
\<close>

theorem get_attr_returns_field_witness:
  "attr_names (blank\<lparr>attr_names := [''raw-content'' \<mapsto> PyStr ''body_text'']\<rparr>) ''raw-content''
     = Some (PyStr ''body_text'')
   \<and> obj_attrs \<lparr>obj_attrs = [''body_text'' \<mapsto> PyStr ''hello''], slots = Map.empty\<rparr> ''body_text''
     = Some (PyStr ''hello'')
   \<and> get_attr (blank\<lparr>attr_names := [''raw-content'' \<mapsto> PyStr ''body_text'']\<rparr>)
        \<lparr>obj_attrs = [''body_text'' \<mapsto> PyStr ''hello''], slots = Map.empty\<rparr> ''raw-content''
     = Inr (PyStr ''hello'')"
  using get_attr_returns_field
    [of "blank\<lparr>attr_names := [''raw-content'' \<mapsto> PyStr ''body_text'']\<rparr>" "''raw-content''"
        "''body_text''" "\<lparr>obj_attrs = [''body_text'' \<mapsto> PyStr ''hello''], slots = Map.empty\<rparr>"
        "PyStr ''hello''"]
  by simp




text \<open>
  C7. When the literal field name registered under the logical name does not exist on
  the target object, the result of \<^verbatim>\<open>get_attr\<close> is the \<^verbatim>\<open>AttributeError\<close> of
  \<^verbatim>\<open>getattr\<close> for that field name: the error reaches the caller.
\<close>

theorem get_attr_missing_field:
  assumes "attr_names self name = Some (PyStr f)"
    and "obj_attrs obj f = None"
  shows "get_attr self obj name = Inl (AttributeError f)"
  using assms by (simp add: get_attr_def getattr_def)

theorem get_attr_missing_field_witness:
  "attr_names (blank\<lparr>attr_names := [''raw_html_attr'' \<mapsto> PyStr ''raw_html'']\<rparr>) ''raw_html_attr''
     = Some (PyStr ''raw_html'')
   \<and> obj_attrs \<lparr>obj_attrs = Map.empty, slots = Map.empty\<rparr> ''raw_html'' = None
   \<and> get_attr (blank\<lparr>attr_names := [''raw_html_attr'' \<mapsto> PyStr ''raw_html'']\<rparr>)
        \<lparr>obj_attrs = Map.empty, slots = Map.empty\<rparr> ''raw_html_attr''
     = Inl (AttributeError ''raw_html'')"
  using get_attr_missing_field
    [of "blank\<lparr>attr_names := [''raw_html_attr'' \<mapsto> PyStr ''raw_html'']\<rparr>" "''raw_html_attr''"
        "''raw_html''" "\<lparr>obj_attrs = Map.empty, slots = Map.empty\<rparr>"]
  by simp

section \<open>Claims about the read protocol\<close>




text \<open>
  C4. When the provider raises \<open>e\<close> at a read through a target with an empty slot, the
  read raises \<open>e\<close>, nothing is stored on the target, and the next read through the same
  target invokes the provider again; if that invocation returns a value, the read
  returns it and the slot holds it.
\<close>

theorem provider_error_not_cached:
  assumes "slots (heap s a) k = None"
    and "provide_value (heap s a) (env s) = (Inl e, w)"
  shows "fst (dunder_get provide_value k a s) = Inl e \<and>
    heap (snd (dunder_get provide_value k a s)) = heap s \<and>
    calls (snd (dunder_get provide_value k a s)) = calls s @ [(k, a)] \<and>
    calls (snd (dunder_get provide_value k a (snd (dunder_get provide_value k a s)))) =
      calls s @ [(k, a), (k, a)] \<and>
    (\<forall>v w'. provide_value (heap s a) w = (Inr v, w') \<longrightarrow>
       fst (dunder_get provide_value k a (snd (dunder_get provide_value k a s))) = Inr v \<and>
       slots (heap (snd (dunder_get provide_value k a
                (snd (dunder_get provide_value k a s)))) a) k = Some v)"
proof -
  let ?s1 = "s\<lparr>env := w, calls := calls s @ [(k, a)]\<rparr>"
  have first: "dunder_get provide_value k a s = (Inl e, ?s1)"
    using assms by (rule dunder_get_raises)
  have empty: "slots (heap ?s1 a) k = None"
    using assms(1) by simp
  have again: "calls (snd (dunder_get provide_value k a ?s1)) = calls s @ [(k, a), (k, a)]"
  proof (cases "provide_value (heap ?s1 a) (env ?s1)")
    case (Pair r w')
    show ?thesis
    proof (cases r)
      case (Inl e')
      with Pair have "provide_value (heap ?s1 a) (env ?s1) = (Inl e', w')" by simp
      from dunder_get_raises [where pv = provide_value and s = "?s1", OF empty this]
      show ?thesis by simp
    next
      case (Inr v)
      with Pair have "provide_value (heap ?s1 a) (env ?s1) = (Inr v, w')" by simp
      from dunder_get_returns [where pv = provide_value and s = "?s1", OF empty this]
      show ?thesis by simp
    qed
  qed
  have memo: "fst (dunder_get provide_value k a ?s1) = Inr v \<and>
      slots (heap (snd (dunder_get provide_value k a ?s1)) a) k = Some v"
    if "provide_value (heap s a) w = (Inr v, w')" for v w'
  proof -
    from that have "provide_value (heap ?s1 a) (env ?s1) = (Inr v, w')" by simp
    from dunder_get_returns [where pv = provide_value and s = "?s1", OF empty this]
    show ?thesis by simp
  qed
  show ?thesis using again memo by (simp add: first)
qed

theorem provider_error_not_cached_witness:
  "slots (heap (fresh (0::nat)) 0) 0 = None
   \<and> flaky (heap (fresh 0) 0) (env (fresh 0)) = (Inl ''boom'', 1)
   \<and> fst (dunder_get flaky 0 0 (fresh 0)) = Inl ''boom''
   \<and> slots (heap (snd (dunder_get flaky 0 0 (fresh 0))) 0) 0 = None
   \<and> calls (snd (dunder_get flaky 0 0 (snd (dunder_get flaky 0 0 (fresh 0))))) = [(0, 0), (0, 0)]
   \<and> fst (dunder_get flaky 0 0 (snd (dunder_get flaky 0 0 (fresh 0)))) = Inr (PyInt 42)
   \<and> slots (heap (snd (dunder_get flaky 0 0 (snd (dunder_get flaky 0 0 (fresh 0))))) 0) 0
       = Some (PyInt 42)"
proof -
  have h1: "slots (heap (fresh (0::nat)) 0) 0 = None" by (simp add: fresh_def)
  have h2: "flaky (heap (fresh 0) 0) (env (fresh 0)) = (Inl ''boom'', 1)"
    by (simp add: flaky_def fresh_def)
  note t = provider_error_not_cached
    [where s = "fresh 0" and a = 0 and k = 0 and provide_value = flaky and e = "''boom''"
       and w = 1, OF h1 h2]
  have a: "fst (dunder_get flaky 0 0 (fresh 0)) = Inl ''boom''"
    by (rule t [THEN conjunct1])
  have "heap (snd (dunder_get flaky 0 0 (fresh 0))) = heap (fresh (0::nat))"
    by (rule t [THEN conjunct2, THEN conjunct1])
  then have b: "slots (heap (snd (dunder_get flaky 0 0 (fresh 0))) 0) 0 = None"
    using h1 by simp
  have "calls (snd (dunder_get flaky 0 0 (snd (dunder_get flaky 0 0 (fresh 0))))) =
      calls (fresh (0::nat)) @ [(0, 0), (0, 0)]"
    by (rule t [THEN conjunct2, THEN conjunct2, THEN conjunct2, THEN conjunct1])
  then have c: "calls (snd (dunder_get flaky 0 0 (snd (dunder_get flaky 0 0 (fresh 0))))) =
      [(0, 0), (0, 0)]"
    by (simp add: fresh_def)
  have f: "flaky (heap (fresh (0::nat)) 0) 1 = (Inr (PyInt 42), 2)"
    by (simp add: flaky_def)
  have d: "fst (dunder_get flaky 0 0 (snd (dunder_get flaky 0 0 (fresh 0)))) = Inr (PyInt 42)
    \<and> slots (heap (snd (dunder_get flaky 0 0 (snd (dunder_get flaky 0 0 (fresh 0))))) 0) 0
       = Some (PyInt 42)"
    using t [THEN conjunct2, THEN conjunct2, THEN conjunct2, THEN conjunct2, rule_format, OF f] .
  note d1 = d [THEN conjunct1] and d2 = d [THEN conjunct2]
  from h1 h2 a b c d1 d2 show ?thesis by (intro conjI)
qed

end
